theory Spec2Isabelle
  imports Complex_Main
begin

section \<open>Python values used by \<open>import_COCO_dataset.py\<close>\<close>

text \<open>
  The script is Python: integers are unbounded (\<open>int\<close>), the split proportions are
  binary64 floats. A float is modelled by the rational number it denotes, and every
  float operation rounds its exact result to the nearest binary64 value, ties to even
  (\<open>fl\<close>). The exponent range is bounded below (subnormals) but not above: overflow to
  infinity, infinities and NaN are outside the model, so results are exact for all
  magnitudes below \<open>2^1024\<close>.
\<close>

datatype py_error = ZeroDivisionError | IndexError | ValueError | EOFError

definition ebind :: "py_error + 'a \<Rightarrow> ('a \<Rightarrow> py_error + 'b) \<Rightarrow> py_error + 'b" where
  "ebind m f = (case m of Inl e \<Rightarrow> Inl e | Inr v \<Rightarrow> f v)"

text \<open>Python's \<open>xs[i]\<close> for the constant indices 0 and 1 the script uses.\<close>

definition py_index :: "'a list \<Rightarrow> nat \<Rightarrow> py_error + 'a" where
  "py_index xs i = (if i < length xs then Inr (xs ! i) else Inl IndexError)"

text \<open>\<open>int.bit_length\<close> of a positive integer (0 for the others, not used).\<close>

function bit_length :: "int \<Rightarrow> nat" where
  "bit_length n = (if n \<le> 0 then 0 else Suc (bit_length (n div 2)))"
  by pat_completeness auto
termination
  by (relation "measure nat") auto

declare bit_length.simps [simp del]

definition pow2 :: "int \<Rightarrow> rat" where
  "pow2 e = (if 0 \<le> e then 2 ^ nat e else 1 / 2 ^ nat (- e))"

text \<open>
  \<open>round(x)\<close> on a float, one argument: the nearest integer, a tie going to the even
  neighbour.
\<close>

definition py_round :: "rat \<Rightarrow> int" where
  "py_round x =
     (let f = \<lfloor>x\<rfloor>; r = x - of_int f
      in if r < 1 / 2 then f
         else if 1 / 2 < r then f + 1
         else if even f then f else f + 1)"

text \<open>The binary exponent \<open>e\<close> of a non-zero rational: \<open>2^e \<le> |x| < 2^(e+1)\<close>.\<close>

definition float_exponent :: "rat \<Rightarrow> int" where
  "float_exponent x =
     (let (a, b) = quotient_of \<bar>x\<bar>;
          d = int (bit_length a) - int (bit_length b)
      in if pow2 d \<le> \<bar>x\<bar> then d else d - 1)"

text \<open>
  Rounding to binary64: 53 significant bits, ties to even, the quantum never below
  \<open>2^-1074\<close>.
\<close>

definition fl :: "rat \<Rightarrow> rat" where
  "fl x =
     (if x = 0 then 0
      else let q = pow2 (max (float_exponent x) (- 1022) - 52)
           in of_int (py_round (x / q)) * q)"

text \<open>
  \<open>n * x\<close> with \<open>n\<close> an int and \<open>x\<close> a float: \<open>n\<close> is converted to the nearest float,
  then multiplied.
\<close>

definition int_mul_float :: "int \<Rightarrow> rat \<Rightarrow> rat" where
  "int_mul_float n x = fl (fl (of_int n) * x)"

text \<open>\<open>a / b\<close> on two ints: the correctly rounded quotient, or ZeroDivisionError.\<close>

definition true_div :: "int \<Rightarrow> int \<Rightarrow> py_error + rat" where
  "true_div a b = (if b = 0 then Inl ZeroDivisionError else Inr (fl (of_int a / of_int b)))"

section \<open>The \<open>Dataset\<close> class\<close>

record dataset =
  total_number_of_images :: int
  train_split :: rat
  val_split :: rat
  test_split :: rat
  classes :: "string list"
  label_type :: "string list"
  pos_neg_ratio :: "int list"

text \<open>The constructor wraps \<open>classes\<close> and \<open>label_type\<close> in a list.\<close>

definition Dataset ::
  "int \<Rightarrow> rat \<Rightarrow> rat \<Rightarrow> rat \<Rightarrow> string \<Rightarrow> string \<Rightarrow> int list \<Rightarrow> dataset" where
  "Dataset n_images train_s val_s test_s cls label ratio =
     \<lparr>total_number_of_images = n_images, train_split = train_s, val_split = val_s,
      test_split = test_s, classes = [cls], label_type = [label], pos_neg_ratio = ratio\<rparr>"


text \<open>
  One split of \<open>split_dataset\<close>: the three blocks of the method are the same code on
  \<open>train_split\<close>, \<open>val_split\<close> and \<open>test_split\<close>. \<open>split_images\<close> is
  \<open>round(self.total_number_of_images * self.train_split)\<close>, and \<open>split_counts\<close> the
  two lines after it, giving the pair (negatives, positives).
\<close>

definition split_images :: "dataset \<Rightarrow> rat \<Rightarrow> int" where
  "split_images d proportion = py_round (int_mul_float (total_number_of_images d) proportion)"

definition split_counts :: "dataset \<Rightarrow> int \<Rightarrow> int \<Rightarrow> rat \<Rightarrow> py_error + (int \<times> int)" where
  "split_counts d ratio_total ratio_neg proportion =
     (let images = split_images d proportion
      in ebind (true_div images ratio_total) (\<lambda>quotient.
           let negatives = py_round quotient * ratio_neg
           in Inr (negatives, images - negatives)))"

definition split_dataset :: "dataset \<Rightarrow> py_error + (int \<times> int \<times> int \<times> int \<times> int \<times> int)" where
  "split_dataset d =
     ebind (py_index (pos_neg_ratio d) 0) (\<lambda>ratio_pos.
     ebind (py_index (pos_neg_ratio d) 1) (\<lambda>ratio_neg.
       let ratio_total = ratio_pos + ratio_neg
       in ebind (split_counts d ratio_total ratio_neg (train_split d))
            (\<lambda>(train_split_negatives, train_split_positives).
          ebind (split_counts d ratio_total ratio_neg (val_split d))
            (\<lambda>(val_split_negatives, val_split_positives).
          ebind (split_counts d ratio_total ratio_neg (test_split d))
            (\<lambda>(test_split_negatives, test_split_positives).
            Inr (train_split_negatives, train_split_positives,
                 val_split_negatives, val_split_positives,
                 test_split_negatives, test_split_positives))))))"

text \<open>
  The test of the split prompts in \<open>user_input\<close>: each proportion within \<open>[0, 1]\<close>,
  and \<open>abs(total_split - 1.0) > 0.001\<close> false for the float sum of the three.
\<close>

definition splits_accepted :: "rat \<Rightarrow> rat \<Rightarrow> rat \<Rightarrow> bool" where
  "splits_accepted train_s val_s test_s =
     (\<not> (train_s < 0 \<or> train_s > 1) \<and>
      \<not> (val_s < 0 \<or> val_s > 1) \<and>
      \<not> (test_s < 0 \<or> test_s > 1) \<and>
      (let total_split = fl (fl (train_s + val_s) + test_s)
       in \<not> (\<bar>fl (total_split - 1)\<bar> > fl (1 / 1000))))"

subsection \<open>\<open>load_dataset\<close>\<close>

text \<open>
  The three \<open>fo.Dataset()\<close> objects of the dictionary \<open>datasets\<close>, in the order of its
  keys; \<open>add_sample\<close> appends. A sample is opaque to this method.
\<close>

record 'a datasets =
  train :: "'a list"
  validation :: "'a list"
  test :: "'a list"

definition empty_datasets :: "'a datasets" where
  "empty_datasets = \<lparr>train = [], validation = [], test = []\<rparr>"

text \<open>
  The \<open>for sample in ...\<close> loop, written twice in the source: once on the positives
  with \<open>train_positives\<close> and \<open>val_positives\<close>, once on the negatives with
  \<open>train_negatives\<close> and \<open>val_negatives\<close>. \<open>count\<close> is the loop's counter.
\<close>

fun assign_loop :: "int \<Rightarrow> int \<Rightarrow> int \<Rightarrow> 'a list \<Rightarrow> 'a datasets \<Rightarrow> 'a datasets" where
  "assign_loop train_quota val_quota count [] ds = ds"
| "assign_loop train_quota val_quota count (sample # rest) ds =
     assign_loop train_quota val_quota (count + 1) rest
       (if count < train_quota then ds\<lparr>train := train ds @ [sample]\<rparr>
        else if count < train_quota + val_quota then ds\<lparr>validation := validation ds @ [sample]\<rparr>
        else ds\<lparr>test := test ds @ [sample]\<rparr>)"

text \<open>
  The second half of \<open>load_dataset\<close>, from \<open>count = 0\<close> to the return: both loops with
  their guards on \<open>pos_neg_ratio\<close>, on fresh datasets. The counts come in the order
  \<open>split_dataset\<close> returns them.
\<close>

definition assign ::
  "int \<Rightarrow> int \<Rightarrow> int \<times> int \<times> int \<times> int \<times> int \<times> int \<Rightarrow> 'a list \<Rightarrow> 'a list \<Rightarrow> 'a datasets" where
  "assign ratio_pos ratio_neg counts positives negatives =
     (case counts of
        (train_negatives, train_positives, val_negatives, val_positives,
         test_negatives, test_positives) \<Rightarrow>
          let ds0 = empty_datasets;
              ds1 = (if ratio_pos \<noteq> 0
                     then assign_loop train_positives val_positives 0 positives ds0 else ds0);
              ds2 = (if ratio_neg \<noteq> 0
                     then assign_loop train_negatives val_negatives 0 negatives ds1 else ds1)
          in ds2)"

text \<open>
  \<open>load_dataset\<close>. The two calls of \<open>foz.load_zoo_dataset\<close> are the parameters
  \<open>load_positives\<close> and \<open>load_negatives\<close>, functions of \<open>max_samples\<close> (every other
  argument is fixed by the request). Where a guard is false the source leaves the
  variable unbound and never reads it; the model puts the empty list there. The guards
  read \<open>pos_neg_ratio[0]\<close> and \<open>pos_neg_ratio[1]\<close> after \<open>split_dataset\<close> has read both,
  so the indices are in range.
\<close>

definition load_dataset ::
  "(int \<Rightarrow> 'a list) \<Rightarrow> (int \<Rightarrow> 'a list) \<Rightarrow> dataset \<Rightarrow> py_error + 'a datasets" where
  "load_dataset load_positives load_negatives d =
     ebind (split_dataset d)
       (\<lambda>(train_negatives, train_positives, val_negatives, val_positives,
           test_negatives, test_positives).
          let ratio_pos = pos_neg_ratio d ! 0;
              ratio_neg = pos_neg_ratio d ! 1;
              positives = (if ratio_pos \<noteq> 0
                           then load_positives (train_positives + val_positives + test_positives)
                           else []);
              negatives = (if ratio_neg \<noteq> 0
                           then load_negatives (train_negatives + val_negatives + test_negatives)
                           else [])
          in Inr (assign ratio_pos ratio_neg
                    (train_negatives, train_positives, val_negatives, val_positives,
                     test_negatives, test_positives) positives negatives))"

subsection \<open>The ratio prompt of \<open>user_input\<close>\<close>












section \<open>Licenses\<close>

datatype License = CC_BY | CC_BY_SA | CC_BY_ND | CC_BY_NC | CC_BY_NC_SA | CC_BY_NC_ND | OTHER | CC0

fun license_id :: "License \<Rightarrow> nat" where
  "license_id CC_BY = 1"
| "license_id CC_BY_SA = 2"
| "license_id CC_BY_ND = 3"
| "license_id CC_BY_NC = 4"
| "license_id CC_BY_NC_SA = 5"
| "license_id CC_BY_NC_ND = 6"
| "license_id OTHER = 7"
| "license_id CC0 = 8"

fun license_name :: "License \<Rightarrow> string" where
  "license_name CC_BY = ''Attribution License''"
| "license_name CC_BY_SA = ''Attribution-ShareAlike License''"
| "license_name CC_BY_ND = ''Attribution-NoDerivs License''"
| "license_name CC_BY_NC = ''Attribution-NonCommercial License''"
| "license_name CC_BY_NC_SA = ''Attribution-NonCommercial-ShareAlike License''"
| "license_name CC_BY_NC_ND = ''Attribution-NonCommercial-NoDerivs License''"
| "license_name OTHER = ''No known copyright restrictions''"
| "license_name CC0 = ''United States Government Work''"

fun url :: "License \<Rightarrow> string" where
  "url CC_BY = ''https://creativecommons.org/licenses/by/4.0/''"
| "url CC_BY_SA = ''https://creativecommons.org/licenses/by-sa/4.0/''"
| "url CC_BY_ND = ''https://creativecommons.org/licenses/by-nd/4.0/''"
| "url CC_BY_NC = ''https://creativecommons.org/licenses/by-nc/4.0/''"
| "url CC_BY_NC_SA = ''https://creativecommons.org/licenses/by-nc-sa/4.0/''"
| "url CC_BY_NC_ND = ''https://creativecommons.org/licenses/by-nc-nd/4.0/''"
| "url OTHER = ''http://flickr.com/commons/usage/e''"
| "url CC0 = ''http://www.usa.gov/copyright.shtml''"

text \<open>Iterating over the enumeration yields its members in definition order.\<close>

definition License_members :: "License list" where
  "License_members = [CC_BY, CC_BY_SA, CC_BY_ND, CC_BY_NC, CC_BY_NC_SA, CC_BY_NC_ND, OTHER, CC0]"

text \<open>
  \<open>License.from_name\<close>. The argument is \<open>sample.license\<close>, a string or \<open>None\<close>; \<open>None\<close>
  equals no name.
\<close>

definition from_name :: "string option \<Rightarrow> License" where
  "from_name name =
     (case find (\<lambda>license_enum. Some (license_name license_enum) = name) License_members of
        Some license_enum \<Rightarrow> license_enum
      | None \<Rightarrow> CC0)"

text \<open>What \<open>license_info\<close> reads of a sample.\<close>

record sample =
  sample_id :: nat
  license :: "string option"

text \<open>\<open>str(n)\<close> of a length or a count, as the f-strings print it.\<close>

fun str_nat :: "nat \<Rightarrow> string" where
  "str_nat n =
     (if n < 10 then [char_of (48 + n)]
      else str_nat (n div 10) @ [char_of (48 + n mod 10)])"

declare str_nat.simps [simp del]

text \<open>
  The dictionary \<open>license_counter\<close> after the loop over the samples of one split: every
  member starts at 0.
\<close>

definition license_counter :: "sample list \<Rightarrow> License \<Rightarrow> nat" where
  "license_counter samples =
     fold (\<lambda>s counter.
             let license_enum = from_name (license s)
             in counter(license_enum := counter license_enum + 1))
          samples (\<lambda>_. 0)"

text \<open>The text written to \<open>license_info.txt\<close> for one split, then for the three.\<close>

definition split_report :: "string \<Rightarrow> sample list \<Rightarrow> string" where
  "split_report split samples =
     (let counter = license_counter samples
      in [CHR 0x0A] @ ''License information for '' @ split @ '' dataset:'' @ [CHR 0x0A]
         @ ''Total images: '' @ str_nat (length samples) @ [CHR 0x0A]
         @ ''Total images with license:'' @ [CHR 0x0A]
         @ concat (map (\<lambda>license_enum.
                          license_name license_enum @ '': ''
                          @ str_nat (counter license_enum) @ [CHR 0x0A])
                       License_members))"

definition license_info :: "sample datasets \<Rightarrow> string" where
  "license_info ds =
     split_report ''train'' (train ds)
     @ split_report ''validation'' (validation ds)
     @ split_report ''test'' (test ds)"

section \<open>\<open>main\<close>\<close>


section \<open>A retrieval service for the examples\<close>

text \<open>
  \<open>foz.load_zoo_dataset\<close> is outside the script. In the examples it is a pool of
  samples of which the first \<open>max_samples\<close> are returned.
\<close>

definition first_samples :: "'a list \<Rightarrow> int \<Rightarrow> 'a list" where
  "first_samples pool max_samples = take (nat max_samples) pool"

section \<open>The planner: \<open>split_dataset\<close>\<close>

lemma split_counts_ok:
  "ratio_total \<noteq> 0 \<Longrightarrow>
   split_counts d ratio_total ratio_neg proportion =
     Inr (py_round (fl (of_int (split_images d proportion) / of_int ratio_total)) * ratio_neg,
          split_images d proportion
            - py_round (fl (of_int (split_images d proportion) / of_int ratio_total)) * ratio_neg)"
  by (simp add: split_counts_def true_div_def ebind_def Let_def)

lemma split_counts_zero:
  "split_counts d 0 ratio_neg proportion = Inl ZeroDivisionError"
  by (simp add: split_counts_def true_div_def ebind_def Let_def)

lemma split_dataset_pair:
  "pos_neg_ratio d = [ratio_pos, ratio_neg] \<Longrightarrow>
   split_dataset d =
     ebind (split_counts d (ratio_pos + ratio_neg) ratio_neg (train_split d)) (\<lambda>(tn, tp).
     ebind (split_counts d (ratio_pos + ratio_neg) ratio_neg (val_split d)) (\<lambda>(vn, vp).
     ebind (split_counts d (ratio_pos + ratio_neg) ratio_neg (test_split d)) (\<lambda>(sn, sp).
       Inr (tn, tp, vn, vp, sn, sp))))"
  by (simp add: split_dataset_def py_index_def ebind_def Let_def)

lemma split_dataset_ok:
  assumes "pos_neg_ratio d = [ratio_pos, ratio_neg]" and "ratio_pos + ratio_neg \<noteq> 0"
  shows "split_dataset d =
     Inr (py_round (fl (of_int (split_images d (train_split d)) / of_int (ratio_pos + ratio_neg))) * ratio_neg,
          split_images d (train_split d)
            - py_round (fl (of_int (split_images d (train_split d)) / of_int (ratio_pos + ratio_neg))) * ratio_neg,
          py_round (fl (of_int (split_images d (val_split d)) / of_int (ratio_pos + ratio_neg))) * ratio_neg,
          split_images d (val_split d)
            - py_round (fl (of_int (split_images d (val_split d)) / of_int (ratio_pos + ratio_neg))) * ratio_neg,
          py_round (fl (of_int (split_images d (test_split d)) / of_int (ratio_pos + ratio_neg))) * ratio_neg,
          split_images d (test_split d)
            - py_round (fl (of_int (split_images d (test_split d)) / of_int (ratio_pos + ratio_neg))) * ratio_neg)"
  by (simp add: split_dataset_pair [OF assms(1)] split_counts_ok [OF assms(2)] ebind_def)




lemma skewed_plan:
  "split_dataset (Dataset 3 1 0 0 ''keyboard'' ''detections'' [1, 4]) = Inr (4, - 1, 0, 0, 0, 0)"
  by code_simp

lemma all_train_accepted: "splits_accepted 1 0 0"
  by code_simp

lemma zero_positive_plan:
  "split_dataset (Dataset 7 1 0 0 ''keyboard'' ''detections'' [0, 5]) = Inr (5, 2, 0, 0, 0, 0)"
  by code_simp

lemma few_positives_plan:
  "split_dataset (Dataset 8 (1 / 2) (1 / 4) (1 / 4) ''keyboard'' ''detections'' [1, 0])
     = Inr (0, 4, 0, 2, 0, 2)"
  by code_simp

lemma split_dataset_Inr_nonzero:
  assumes "pos_neg_ratio d = [ratio_pos, ratio_neg]" and "split_dataset d = Inr plan"
  shows "ratio_pos + ratio_neg \<noteq> 0"
proof
  assume "ratio_pos + ratio_neg = 0"
  then have "split_dataset d = Inl ZeroDivisionError"
    by (simp add: split_dataset_pair [OF assms(1)] split_counts_zero ebind_def)
  with assms(2) show False by simp
qed







text \<open>
  C7. Some request with accepted splits and a positive ratio sum gets a negative number
  of positives: 3 images, all in train, at 1:4 give 4 negatives and -1 positives.
  In general the positives of a split are negative exactly when
  \<open>round(images / ratio_total) * pos_neg_ratio[1]\<close> exceeds the split's images; the
  planner returns the difference as it is.
\<close>

theorem split_dataset_negative_positives:
  "(\<exists>d' tn' tp' vn' vp' sn' sp'.
      0 \<le> total_number_of_images d' \<and>
      splits_accepted (train_split d') (val_split d') (test_split d') \<and>
      pos_neg_ratio d' = [1, 4] \<and>
      split_dataset d' = Inr (tn', tp', vn', vp', sn', sp') \<and> tp' < 0)
   \<and> (pos_neg_ratio d = [ratio_pos, ratio_neg] \<and> 0 < ratio_pos + ratio_neg \<and>
       split_dataset d = Inr (tn, tp, vn, vp, sn, sp) \<longrightarrow>
         (tp < 0 \<longleftrightarrow>
            split_images d (train_split d)
              < py_round (fl (of_int (split_images d (train_split d))
                              / of_int (ratio_pos + ratio_neg))) * ratio_neg) \<and>
         (vp < 0 \<longleftrightarrow>
            split_images d (val_split d)
              < py_round (fl (of_int (split_images d (val_split d))
                              / of_int (ratio_pos + ratio_neg))) * ratio_neg) \<and>
         (sp < 0 \<longleftrightarrow>
            split_images d (test_split d)
              < py_round (fl (of_int (split_images d (test_split d))
                              / of_int (ratio_pos + ratio_neg))) * ratio_neg))"
proof (rule conjI)
  let ?d = "Dataset 3 1 0 0 ''keyboard'' ''detections'' [1, 4]"
  have "splits_accepted (train_split ?d) (val_split ?d) (test_split ?d)"
    using all_train_accepted by (simp add: Dataset_def)
  moreover have "pos_neg_ratio ?d = [1, 4]" and "0 \<le> total_number_of_images ?d"
    by (simp_all add: Dataset_def)
  ultimately show "\<exists>d' tn' tp' vn' vp' sn' sp'.
      0 \<le> total_number_of_images d' \<and>
      splits_accepted (train_split d') (val_split d') (test_split d') \<and>
      pos_neg_ratio d' = [1, 4] \<and>
      split_dataset d' = Inr (tn', tp', vn', vp', sn', sp') \<and> tp' < 0"
    using skewed_plan by (intro exI [of _ ?d]) force
next
  have "(tp < 0 \<longleftrightarrow>
            split_images d (train_split d)
              < py_round (fl (of_int (split_images d (train_split d))
                              / of_int (ratio_pos + ratio_neg))) * ratio_neg) \<and>
         (vp < 0 \<longleftrightarrow>
            split_images d (val_split d)
              < py_round (fl (of_int (split_images d (val_split d))
                              / of_int (ratio_pos + ratio_neg))) * ratio_neg) \<and>
         (sp < 0 \<longleftrightarrow>
            split_images d (test_split d)
              < py_round (fl (of_int (split_images d (test_split d))
                              / of_int (ratio_pos + ratio_neg))) * ratio_neg)"
    if h: "pos_neg_ratio d = [ratio_pos, ratio_neg] \<and> 0 < ratio_pos + ratio_neg \<and>
       split_dataset d = Inr (tn, tp, vn, vp, sn, sp)"
  proof -
    from h have r: "pos_neg_ratio d = [ratio_pos, ratio_neg]"
      and nz: "ratio_pos + ratio_neg \<noteq> 0"
      and s: "split_dataset d = Inr (tn, tp, vn, vp, sn, sp)"
      by simp_all
    from s [unfolded split_dataset_ok [OF r nz]] show ?thesis
      by auto
  qed
  then show "pos_neg_ratio d = [ratio_pos, ratio_neg] \<and> 0 < ratio_pos + ratio_neg \<and>
       split_dataset d = Inr (tn, tp, vn, vp, sn, sp) \<longrightarrow>
         (tp < 0 \<longleftrightarrow>
            split_images d (train_split d)
              < py_round (fl (of_int (split_images d (train_split d))
                              / of_int (ratio_pos + ratio_neg))) * ratio_neg) \<and>
         (vp < 0 \<longleftrightarrow>
            split_images d (val_split d)
              < py_round (fl (of_int (split_images d (val_split d))
                              / of_int (ratio_pos + ratio_neg))) * ratio_neg) \<and>
         (sp < 0 \<longleftrightarrow>
            split_images d (test_split d)
              < py_round (fl (of_int (split_images d (test_split d))
                              / of_int (ratio_pos + ratio_neg))) * ratio_neg)"
    by blast
qed

text \<open>At the skewed request the train split has 3 images and 4 negatives.\<close>

theorem split_dataset_negative_positives_witness:
  "pos_neg_ratio (Dataset 3 1 0 0 ''keyboard'' ''detections'' [1, 4]) = [1, 4]
   \<and> (0 :: int) < 1 + 4
   \<and> split_dataset (Dataset 3 1 0 0 ''keyboard'' ''detections'' [1, 4]) = Inr (4, - 1, 0, 0, 0, 0)
   \<and> ((- 1 :: int) < 0 \<longleftrightarrow>
        split_images (Dataset 3 1 0 0 ''keyboard'' ''detections'' [1, 4]) 1
          < py_round (fl (of_int (split_images (Dataset 3 1 0 0 ''keyboard'' ''detections'' [1, 4]) 1)
                          / of_int (1 + 4))) * 4)"
proof -
  let ?d = "Dataset 3 1 0 0 ''keyboard'' ''detections'' [1, 4]"
  have h: "pos_neg_ratio ?d = [1, 4] \<and> (0 :: int) < 1 + 4
           \<and> split_dataset ?d = Inr (4, - 1, 0, 0, 0, 0)"
    using skewed_plan by (simp add: Dataset_def)
  moreover have "train_split ?d = 1"
    by (simp add: Dataset_def)
  ultimately show ?thesis
    using split_dataset_negative_positives [of ?d 1 4 4 "- 1" 0 0 0 0] by simp
qed

section \<open>The assigner: the loops of \<open>load_dataset\<close>\<close>

lemma assign_loop_closed:
  "0 \<le> count \<Longrightarrow>
   assign_loop a b count xs ds =
     ds\<lparr>train := train ds @ take (nat (a - count)) xs,
        validation := validation ds
          @ take (nat (a + b - count) - nat (a - count)) (drop (nat (a - count)) xs),
        test := test ds @ drop (max (nat (a - count)) (nat (a + b - count))) xs\<rparr>"
proof (induction xs arbitrary: count ds)
  case Nil
  then show ?case by simp
next
  case (Cons x xs)
  have c1: "0 \<le> count + 1" using Cons.prems by simp
  consider (tr) "count < a" | (va) "\<not> count < a" "count < a + b" | (te) "\<not> count < a" "\<not> count < a + b"
    by blast
  then show ?case
  proof cases
    case tr
    then have n1: "nat (a - count) = Suc (nat (a - (count + 1)))" by simp
    have n2: "nat (a + b - count) - Suc (nat (a - (count + 1))) = nat (a + b - (count + 1)) - nat (a - (count + 1))"
      by simp
    have n3: "max (Suc (nat (a - (count + 1)))) (nat (a + b - count)) = Suc (max (nat (a - (count + 1))) (nat (a + b - (count + 1))))"
      using tr by arith
    show ?thesis
      using tr by (simp add: Cons.IH [OF c1] n1 n2 n3 del: of_nat_Suc)
  next
    case va
    then have n1: "nat (a - count) = 0" "nat (a - (count + 1)) = 0" by simp_all
    have n2: "nat (a + b - count) = Suc (nat (a + b - (count + 1)))" using va by simp
    show ?thesis
      using va by (simp add: Cons.IH [OF c1] n1 n2)
  next
    case te
    then have n1: "nat (a - count) = 0" "nat (a - (count + 1)) = 0"
      "nat (a + b - count) = 0" "nat (a + b - (count + 1)) = 0" by simp_all
    show ?thesis
      using te by (simp add: Cons.IH [OF c1] n1)
  qed
qed

lemma assign_loop_fresh:
  "assign_loop a b 0 xs ds =
     ds\<lparr>train := train ds @ take (nat a) xs,
        validation := validation ds @ take (nat (a + b) - nat a) (drop (nat a) xs),
        test := test ds @ drop (max (nat a) (nat (a + b))) xs\<rparr>"
  using assign_loop_closed [of 0 a b xs ds] by simp

lemma segments_append:
  "take i xs @ take (j - i) (drop i xs) @ drop (max i j) xs = xs"
proof (cases "i \<le> j")
  case True
  then have "take (j - i) (drop i xs) @ drop (max i j) xs = drop i xs"
    by (metis add_diff_inverse_nat append_take_drop_id drop_drop linorder_not_less max.absorb2 add.commute)
  then show ?thesis by simp
next
  case False
  then show ?thesis by (simp add: max_def)
qed

lemma three_segments: "take i xs @ take j (drop i xs) @ drop (i + j) xs = xs"
  using segments_append [of i xs "i + j"] by simp

lemma assign_closed:
  "assign ratio_pos ratio_neg (tn, tp, vn, vp, sn, sp) positives negatives =
     (let ps = (if ratio_pos \<noteq> 0 then positives else []);
          ns = (if ratio_neg \<noteq> 0 then negatives else [])
      in \<lparr>train = take (nat tp) ps @ take (nat tn) ns,
          validation = take (nat (tp + vp) - nat tp) (drop (nat tp) ps)
                       @ take (nat (tn + vn) - nat tn) (drop (nat tn) ns),
          test = drop (max (nat tp) (nat (tp + vp))) ps
                 @ drop (max (nat tn) (nat (tn + vn))) ns\<rparr>)"
  by (simp add: assign_def assign_loop_fresh empty_datasets_def Let_def)

lemma assign_closed_nonneg:
  assumes "0 \<le> tn" "0 \<le> tp" "0 \<le> vn" "0 \<le> vp"
  shows "assign ratio_pos ratio_neg (tn, tp, vn, vp, sn, sp) positives negatives =
     (let ps = (if ratio_pos \<noteq> 0 then positives else []);
          ns = (if ratio_neg \<noteq> 0 then negatives else [])
      in \<lparr>train = take (nat tp) ps @ take (nat tn) ns,
          validation = take (nat vp) (drop (nat tp) ps) @ take (nat vn) (drop (nat tn) ns),
          test = drop (nat tp + nat vp) ps @ drop (nat tn + nat vn) ns\<rparr>)"
proof -
  have "nat (tp + vp) - nat tp = nat vp" "max (nat tp) (nat (tp + vp)) = nat tp + nat vp"
    "nat (tn + vn) - nat tn = nat vn" "max (nat tn) (nat (tn + vn)) = nat tn + nat vn"
    using assms by (simp_all add: nat_add_distrib)
  then show ?thesis
    by (simp add: assign_closed)
qed

lemma load_dataset_closed:
  assumes "pos_neg_ratio d = [ratio_pos, ratio_neg]"
    and "split_dataset d = Inr (tn, tp, vn, vp, sn, sp)"
  shows "load_dataset load_positives load_negatives d =
     Inr (assign ratio_pos ratio_neg (tn, tp, vn, vp, sn, sp)
            (if ratio_pos \<noteq> 0 then load_positives (tp + vp + sp) else [])
            (if ratio_neg \<noteq> 0 then load_negatives (tn + vn + sn) else []))"
  by (simp add: load_dataset_def assms ebind_def Let_def)

text \<open>
  C3, as the code has it. A stream is processed only if its component of
  \<open>pos_neg_ratio\<close> is not zero; otherwise none of its samples is assigned. Of a processed
  positive stream the sample at position \<open>i\<close>, counted from 0, goes to train if
  \<open>i < train_positives\<close>, else to validation if \<open>i < train_positives + val_positives\<close>,
  else to test: for counts that are not negative, the first \<open>train_positives\<close> samples
  go to train, the next \<open>val_positives\<close> to validation and all the others to test,
  however many they are. The negative stream follows in the same way against the
  negative counts. The three segments of a processed stream make up the stream, in its
  order: every sample of it is in exactly one split and none is dropped.
\<close>

theorem assign_buckets:
  "(let ps = (if ratio_pos \<noteq> 0 then positives else []);
        ns = (if ratio_neg \<noteq> 0 then negatives else []);
        P1 = take (nat tp) ps;
        P2 = take (nat (tp + vp) - nat tp) (drop (nat tp) ps);
        P3 = drop (max (nat tp) (nat (tp + vp))) ps;
        N1 = take (nat tn) ns;
        N2 = take (nat (tn + vn) - nat tn) (drop (nat tn) ns);
        N3 = drop (max (nat tn) (nat (tn + vn))) ns
    in assign ratio_pos ratio_neg (tn, tp, vn, vp, sn, sp) positives negatives
         = \<lparr>train = P1 @ N1, validation = P2 @ N2, test = P3 @ N3\<rparr>
       \<and> P1 @ P2 @ P3 = ps \<and> N1 @ N2 @ N3 = ns)"
  by (simp add: assign_closed Let_def segments_append)

text \<open>Five positives against quotas 2, 1, 1: the two beyond the quotas are in test.\<close>

theorem assign_buckets_witness:
  "assign 1 1 (1, 2, 1, 1, 1, 1) [''p1'', ''p2'', ''p3'', ''p4'', ''p5''] [''n1'', ''n2'', ''n3'']
     = \<lparr>train = [''p1'', ''p2'', ''n1''], validation = [''p3'', ''n2''],
        test = [''p4'', ''p5'', ''n3'']\<rparr>"
  using assign_buckets [of 1 "[''p1'', ''p2'', ''p3'', ''p4'', ''p5'']" 1 "[''n1'', ''n2'', ''n3'']" 2 1 1 1 1 1]
  by (simp add: Let_def)

text \<open>
  Against C3 as stated: with quotas 1, 1, 1 and five positives, the fourth and the fifth
  are not ignored, they are in test, which holds three positives.
\<close>

theorem assign_excess_counterexample:
  "assign 1 1 (1, 1, 1, 1, 1, 1) [''p1'', ''p2'', ''p3'', ''p4'', ''p5''] [''n1'', ''n2'', ''n3'']
     = \<lparr>train = [''p1'', ''n1''], validation = [''p2'', ''n2''],
        test = [''p3'', ''p4'', ''p5'', ''n3'']\<rparr>"
  by (simp add: assign_closed Let_def)

text \<open>
  C4, as the code has it. For counts that are not negative, a positive stream of exactly
  \<open>train_positives + val_positives + test_positives\<close> samples and a negative stream of
  exactly the three negative counts, each stream either processed (its component of
  \<open>pos_neg_ratio\<close> not zero) or empty: each stream is cut into three consecutive
  segments of exactly the planned lengths, and every split holds its segment of the
  positives followed by its segment of the negatives.
\<close>

theorem assign_exact_lengths:
  assumes "ratio_pos \<noteq> 0 \<or> positives = []" and "ratio_neg \<noteq> 0 \<or> negatives = []"
    and "0 \<le> tn" "0 \<le> tp" "0 \<le> vn" "0 \<le> vp" "0 \<le> sn" "0 \<le> sp"
    and "int (length positives) = tp + vp + sp"
    and "int (length negatives) = tn + vn + sn"
  shows "\<exists>P1 P2 P3 N1 N2 N3.
           positives = P1 @ P2 @ P3 \<and> negatives = N1 @ N2 @ N3 \<and>
           int (length P1) = tp \<and> int (length P2) = vp \<and> int (length P3) = sp \<and>
           int (length N1) = tn \<and> int (length N2) = vn \<and> int (length N3) = sn \<and>
           assign ratio_pos ratio_neg (tn, tp, vn, vp, sn, sp) positives negatives
             = \<lparr>train = P1 @ N1, validation = P2 @ N2, test = P3 @ N3\<rparr>"
proof -
  let ?P1 = "take (nat tp) positives" and ?P2 = "take (nat vp) (drop (nat tp) positives)"
    and ?P3 = "drop (nat tp + nat vp) positives"
  let ?N1 = "take (nat tn) negatives" and ?N2 = "take (nat vn) (drop (nat tn) negatives)"
    and ?N3 = "drop (nat tn + nat vn) negatives"
  have ps: "(if ratio_pos \<noteq> 0 then positives else []) = positives"
    and ns: "(if ratio_neg \<noteq> 0 then negatives else []) = negatives"
    using assms(1,2) by auto
  have a: "assign ratio_pos ratio_neg (tn, tp, vn, vp, sn, sp) positives negatives
             = \<lparr>train = ?P1 @ ?N1, validation = ?P2 @ ?N2, test = ?P3 @ ?N3\<rparr>"
    using assign_closed_nonneg [OF assms(3,4,5,6), of ratio_pos ratio_neg sn sp positives negatives]
    by (simp only: ps ns Let_def)
  have lp: "length positives = nat tp + nat vp + nat sp"
    and ln: "length negatives = nat tn + nat vn + nat sn"
    using assms by linarith+
  have "positives = ?P1 @ ?P2 @ ?P3" "negatives = ?N1 @ ?N2 @ ?N3"
    by (simp_all add: three_segments)
  moreover have "int (length ?P1) = tp" "int (length ?P2) = vp" "int (length ?P3) = sp"
    "int (length ?N1) = tn" "int (length ?N2) = vn" "int (length ?N3) = sn"
    using assms(3-8) by (simp_all add: lp ln)
  ultimately show ?thesis
    using a by blast
qed

text \<open>Quotas 2, 1, 1 for four positives and 1, 1, 1 for three negatives.\<close>

theorem assign_exact_lengths_witness:
  "(1 :: int) \<noteq> 0
   \<and> int (length [''p1'', ''p2'', ''p3'', ''p4'']) = 2 + 1 + 1
   \<and> int (length [''n1'', ''n2'', ''n3'']) = 1 + 1 + 1
   \<and> (\<exists>P1 P2 P3 N1 N2 N3.
         [''p1'', ''p2'', ''p3'', ''p4''] = P1 @ P2 @ P3 \<and> [''n1'', ''n2'', ''n3''] = N1 @ N2 @ N3 \<and>
         int (length P1) = 2 \<and> int (length P2) = 1 \<and> int (length P3) = 1 \<and>
         int (length N1) = 1 \<and> int (length N2) = 1 \<and> int (length N3) = 1 \<and>
         assign 1 1 (1, 2, 1, 1, 1, 1) [''p1'', ''p2'', ''p3'', ''p4''] [''n1'', ''n2'', ''n3'']
           = \<lparr>train = P1 @ N1, validation = P2 @ N2, test = P3 @ N3\<rparr>)
   \<and> assign 1 1 (1, 2, 1, 1, 1, 1) [''p1'', ''p2'', ''p3'', ''p4''] [''n1'', ''n2'', ''n3'']
      = \<lparr>train = [''p1'', ''p2'', ''n1''], validation = [''p3'', ''n2''], test = [''p4'', ''n3'']\<rparr>"
proof -
  have "\<exists>P1 P2 P3 N1 N2 N3.
         [''p1'', ''p2'', ''p3'', ''p4''] = P1 @ P2 @ P3 \<and> [''n1'', ''n2'', ''n3''] = N1 @ N2 @ N3 \<and>
         int (length P1) = 2 \<and> int (length P2) = 1 \<and> int (length P3) = 1 \<and>
         int (length N1) = 1 \<and> int (length N2) = 1 \<and> int (length N3) = 1 \<and>
         assign 1 1 (1, 2, 1, 1, 1, 1) [''p1'', ''p2'', ''p3'', ''p4''] [''n1'', ''n2'', ''n3'']
           = \<lparr>train = P1 @ N1, validation = P2 @ N2, test = P3 @ N3\<rparr>"
    by (rule assign_exact_lengths) simp_all
  moreover have "assign 1 1 (1, 2, 1, 1, 1, 1) [''p1'', ''p2'', ''p3'', ''p4''] [''n1'', ''n2'', ''n3'']
      = \<lparr>train = [''p1'', ''p2'', ''n1''], validation = [''p3'', ''n2''], test = [''p4'', ''n3'']\<rparr>"
    by (simp add: assign_closed Let_def)
  ultimately show ?thesis
    by simp
qed

text \<open>
  Against C4 as stated: 7 images, all in train, at ratio 0:5 are planned as 5 negatives
  and 2 positives, no count negative. The positives are never asked for, and train
  ends with the 5 negatives alone, also when two positives are at hand.
\<close>

theorem assign_exact_lengths_counterexample:
  "split_dataset (Dataset 7 1 0 0 ''keyboard'' ''detections'' [0, 5]) = Inr (5, 2, 0, 0, 0, 0)
   \<and> load_dataset (first_samples [''p1'', ''p2'', ''p3''])
        (first_samples [''n1'', ''n2'', ''n3'', ''n4'', ''n5'', ''n6''])
        (Dataset 7 1 0 0 ''keyboard'' ''detections'' [0, 5])
      = Inr \<lparr>train = [''n1'', ''n2'', ''n3'', ''n4'', ''n5''], validation = [], test = []\<rparr>
   \<and> assign 0 5 (5, 2, 0, 0, 0, 0) [''p1'', ''p2''] [''n1'', ''n2'', ''n3'', ''n4'', ''n5'']
      = \<lparr>train = [''n1'', ''n2'', ''n3'', ''n4'', ''n5''], validation = [], test = []\<rparr>"
proof -
  have r7: "pos_neg_ratio (Dataset 7 1 0 0 ''keyboard'' ''detections'' [0, 5]) = [0, 5]"
    by (simp add: Dataset_def)
  show ?thesis
    by (simp add: zero_positive_plan load_dataset_closed [OF r7 zero_positive_plan]
          assign_closed first_samples_def Let_def)
qed

text \<open>
  C5, as the code has it. For counts that are not negative, a positive component of
  \<open>pos_neg_ratio\<close> that is not zero and a positive stream shorter than the three positive
  counts together: train gets the first \<open>min(train_positives, length)\<close> samples,
  validation the next \<open>min(val_positives, length - those)\<close>, test the rest, never more
  than \<open>test_positives\<close> and fewer when \<open>test_positives\<close> is positive. Validation gets a
  sample only once train is full, test only once train and validation are full. The
  loops raise nothing: \<open>assign\<close> always returns the datasets.
\<close>

theorem assign_short_stream:
  assumes "ratio_pos \<noteq> 0"
    and "0 \<le> tn" "0 \<le> tp" "0 \<le> vn" "0 \<le> vp" "0 \<le> sn" "0 \<le> sp"
    and "int (length positives) < tp + vp + sp"
  shows "(let P1 = take (nat tp) positives;
              P2 = take (nat vp) (drop (nat tp) positives);
              P3 = drop (nat tp + nat vp) positives;
              ns = (if ratio_neg \<noteq> 0 then negatives else [])
          in assign ratio_pos ratio_neg (tn, tp, vn, vp, sn, sp) positives negatives
               = \<lparr>train = P1 @ take (nat tn) ns,
                  validation = P2 @ take (nat vn) (drop (nat tn) ns),
                  test = P3 @ drop (nat tn + nat vn) ns\<rparr>
             \<and> P1 @ P2 @ P3 = positives
             \<and> int (length P1) = min tp (int (length positives))
             \<and> int (length P2) = min vp (int (length positives) - int (length P1))
             \<and> int (length P3) = int (length positives) - int (length P1) - int (length P2)
             \<and> int (length P3) \<le> sp \<and> (0 < sp \<longrightarrow> int (length P3) < sp)
             \<and> (P2 \<noteq> [] \<longrightarrow> int (length P1) = tp)
             \<and> (P3 \<noteq> [] \<longrightarrow> int (length P1) = tp \<and> int (length P2) = vp))"
proof -
  have a: "assign ratio_pos ratio_neg (tn, tp, vn, vp, sn, sp) positives negatives
             = \<lparr>train = take (nat tp) positives @ take (nat tn) (if ratio_neg \<noteq> 0 then negatives else []),
                validation = take (nat vp) (drop (nat tp) positives)
                   @ take (nat vn) (drop (nat tn) (if ratio_neg \<noteq> 0 then negatives else [])),
                test = drop (nat tp + nat vp) positives
                   @ drop (nat tn + nat vn) (if ratio_neg \<noteq> 0 then negatives else [])\<rparr>"
    using assign_closed_nonneg [OF assms(2,3,4,5), of ratio_pos ratio_neg sn sp positives negatives] assms(1)
    by (simp add: Let_def)
  have b: "take (nat tp) positives @ take (nat vp) (drop (nat tp) positives)
            @ drop (nat tp + nat vp) positives = positives"
    by (rule three_segments)
  have n1: "length (take (nat tp) positives) = min (length positives) (nat tp)"
    and n2: "length (take (nat vp) (drop (nat tp) positives))
               = min (length positives - nat tp) (nat vp)"
    and n3: "length (drop (nat tp + nat vp) positives) = length positives - (nat tp + nat vp)"
    by simp_all
  have l1: "int (length (take (nat tp) positives)) = min tp (int (length positives))"
    unfolding n1 using assms(3) by arith
  have l2: "int (length (take (nat vp) (drop (nat tp) positives)))
              = min vp (int (length positives) - int (length (take (nat tp) positives)))"
    unfolding n1 n2 using assms(3,5) by arith
  have l3: "int (length (drop (nat tp + nat vp) positives))
              = int (length positives) - int (length (take (nat tp) positives))
                - int (length (take (nat vp) (drop (nat tp) positives)))"
    unfolding n1 n2 n3 using assms(3,5) by arith
  have l4: "int (length (drop (nat tp + nat vp) positives)) \<le> sp
            \<and> (0 < sp \<longrightarrow> int (length (drop (nat tp + nat vp) positives)) < sp)"
    unfolding n3 using assms(3,5,7,8) by arith
  have l5: "take (nat vp) (drop (nat tp) positives) \<noteq> []
              \<longrightarrow> int (length (take (nat tp) positives)) = tp"
    unfolding length_greater_0_conv [symmetric] n1 n2 using assms(3,5) by arith
  have l6: "drop (nat tp + nat vp) positives \<noteq> []
              \<longrightarrow> int (length (take (nat tp) positives)) = tp
                \<and> int (length (take (nat vp) (drop (nat tp) positives))) = vp"
    unfolding length_greater_0_conv [symmetric] n1 n2 n3 using assms(3,5) by arith
  show ?thesis
    unfolding Let_def using a b l1 l2 l3 l4 l5 l6 by blast
qed

text \<open>Five positives against quotas 4, 2, 2: train is full, validation gets one, test none.\<close>

theorem assign_short_stream_witness:
  "(1 :: int) \<noteq> 0
   \<and> int (length [''p1'', ''p2'', ''p3'', ''p4'', ''p5'']) < 4 + 2 + 2
   \<and> assign 1 0 (0, 4, 0, 2, 0, 2) [''p1'', ''p2'', ''p3'', ''p4'', ''p5''] []
      = \<lparr>train = [''p1'', ''p2'', ''p3'', ''p4''], validation = [''p5''], test = []\<rparr>
   \<and> int (length [''p1'', ''p2'', ''p3'', ''p4'']) = min 4 (int (length [''p1'', ''p2'', ''p3'', ''p4'', ''p5'']))
   \<and> int (length [''p5'']) = min 2 (int (length [''p1'', ''p2'', ''p3'', ''p4'', ''p5'']) - 4)
   \<and> int (length ([] :: string list)) < 2"
  using assign_short_stream [of 1 0 4 0 2 0 2 "[''p1'', ''p2'', ''p3'', ''p4'', ''p5'']" 0 "[]"]
  by (simp add: Let_def)

text \<open>
  Against C5 as stated: 8 images at 0.5, 0.25, 0.25 and ratio 1:0 are planned as
  4, 2 and 2 positives. With one positive retrieved, train holds one sample, fewer
  than its 4, and validation none, fewer than its 2: test is not the only split below
  its count.
\<close>

theorem assign_short_stream_counterexample:
  "split_dataset (Dataset 8 (1 / 2) (1 / 4) (1 / 4) ''keyboard'' ''detections'' [1, 0])
     = Inr (0, 4, 0, 2, 0, 2)
   \<and> load_dataset (first_samples [''p1'']) (first_samples [])
        (Dataset 8 (1 / 2) (1 / 4) (1 / 4) ''keyboard'' ''detections'' [1, 0])
      = Inr \<lparr>train = [''p1''], validation = [], test = []\<rparr>
   \<and> assign 1 0 (0, 4, 0, 2, 0, 2) [''p1''] []
      = \<lparr>train = [''p1''], validation = [], test = []\<rparr>"
proof -
  have r8: "pos_neg_ratio (Dataset 8 (1 / 2) (1 / 4) (1 / 4) ''keyboard'' ''detections'' [1, 0]) = [1, 0]"
    by (simp add: Dataset_def)
  show ?thesis
    by (simp add: few_positives_plan load_dataset_closed [OF r8 few_positives_plan]
          assign_closed first_samples_def Let_def)
qed

text \<open>
  C10. When \<open>pos_neg_ratio[0]\<close> is 0 and the planner succeeds, \<open>load_dataset\<close> neither
  retrieves nor assigns a positive sample, whatever the planned positive counts: its
  result is made of the negative stream alone. For 7 images, all in train, at 0:5 the
  plan has 2 positives and the result none. When \<open>pos_neg_ratio[1]\<close> is 0 the negative
  stream is left out in the same way.
\<close>

theorem load_dataset_zero_component:
  "(pos_neg_ratio d = [0, ratio_neg] \<and> split_dataset d = Inr (tn, tp, vn, vp, sn, sp) \<longrightarrow>
      load_dataset load_positives load_negatives d =
        Inr (let ns = load_negatives (tn + vn + sn)
             in \<lparr>train = take (nat tn) ns,
                 validation = take (nat (tn + vn) - nat tn) (drop (nat tn) ns),
                 test = drop (max (nat tn) (nat (tn + vn))) ns\<rparr>))
   \<and> (pos_neg_ratio d = [ratio_pos, 0] \<and> split_dataset d = Inr (tn, tp, vn, vp, sn, sp) \<longrightarrow>
      load_dataset load_positives load_negatives d =
        Inr (let ps = load_positives (tp + vp + sp)
             in \<lparr>train = take (nat tp) ps,
                 validation = take (nat (tp + vp) - nat tp) (drop (nat tp) ps),
                 test = drop (max (nat tp) (nat (tp + vp))) ps\<rparr>))
   \<and> split_dataset (Dataset 7 1 0 0 ''keyboard'' ''detections'' [0, 5]) = Inr (5, 2, 0, 0, 0, 0)
   \<and> load_dataset load_positives load_negatives
        (Dataset 7 1 0 0 ''keyboard'' ''detections'' [0, 5])
      = Inr \<lparr>train = take 5 (load_negatives 5), validation = [],
             test = drop 5 (load_negatives 5)\<rparr>"
proof -
  have 1: "load_dataset load_positives load_negatives d =
        Inr (let ns = load_negatives (tn + vn + sn)
             in \<lparr>train = take (nat tn) ns,
                 validation = take (nat (tn + vn) - nat tn) (drop (nat tn) ns),
                 test = drop (max (nat tn) (nat (tn + vn))) ns\<rparr>)"
    if r: "pos_neg_ratio d = [0, ratio_neg]" and s: "split_dataset d = Inr (tn, tp, vn, vp, sn, sp)"
  proof -
    have "ratio_neg \<noteq> 0"
      using split_dataset_Inr_nonzero [OF r s] by simp
    then show ?thesis
      by (simp add: load_dataset_closed [OF r s] assign_closed Let_def)
  qed
  have 2: "load_dataset load_positives load_negatives d =
        Inr (let ps = load_positives (tp + vp + sp)
             in \<lparr>train = take (nat tp) ps,
                 validation = take (nat (tp + vp) - nat tp) (drop (nat tp) ps),
                 test = drop (max (nat tp) (nat (tp + vp))) ps\<rparr>)"
    if r: "pos_neg_ratio d = [ratio_pos, 0]" and s: "split_dataset d = Inr (tn, tp, vn, vp, sn, sp)"
  proof -
    have "ratio_pos \<noteq> 0"
      using split_dataset_Inr_nonzero [OF r s] by simp
    then show ?thesis
      by (simp add: load_dataset_closed [OF r s] assign_closed Let_def)
  qed
  have r7: "pos_neg_ratio (Dataset 7 1 0 0 ''keyboard'' ''detections'' [0, 5]) = [0, 5]"
    by (simp add: Dataset_def)
  have 3: "load_dataset load_positives load_negatives
        (Dataset 7 1 0 0 ''keyboard'' ''detections'' [0, 5])
      = Inr \<lparr>train = take 5 (load_negatives 5), validation = [],
             test = drop 5 (load_negatives 5)\<rparr>"
    by (simp add: load_dataset_closed [OF r7 zero_positive_plan] assign_closed Let_def)
  from 1 2 3 zero_positive_plan show ?thesis
    by blast
qed

text \<open>The request at 0:5, and a request at 1:0, with pools of samples to retrieve from.\<close>

theorem load_dataset_zero_component_witness:
  "pos_neg_ratio (Dataset 7 1 0 0 ''keyboard'' ''detections'' [0, 5]) = [0, 5]
   \<and> split_dataset (Dataset 7 1 0 0 ''keyboard'' ''detections'' [0, 5]) = Inr (5, 2, 0, 0, 0, 0)
   \<and> load_dataset (first_samples [''p1'', ''p2'', ''p3''])
        (first_samples [''n1'', ''n2'', ''n3'', ''n4'', ''n5'', ''n6''])
        (Dataset 7 1 0 0 ''keyboard'' ''detections'' [0, 5])
      = Inr \<lparr>train = [''n1'', ''n2'', ''n3'', ''n4'', ''n5''], validation = [], test = []\<rparr>
   \<and> pos_neg_ratio (Dataset 8 (1 / 2) (1 / 4) (1 / 4) ''keyboard'' ''detections'' [1, 0]) = [1, 0]
   \<and> split_dataset (Dataset 8 (1 / 2) (1 / 4) (1 / 4) ''keyboard'' ''detections'' [1, 0])
      = Inr (0, 4, 0, 2, 0, 2)
   \<and> load_dataset (first_samples [''p1'', ''p2'', ''p3'', ''p4'', ''p5'', ''p6'', ''p7'', ''p8'', ''p9''])
        (first_samples [''n1'', ''n2'', ''n3''])
        (Dataset 8 (1 / 2) (1 / 4) (1 / 4) ''keyboard'' ''detections'' [1, 0])
      = Inr \<lparr>train = [''p1'', ''p2'', ''p3'', ''p4''], validation = [''p5'', ''p6''],
             test = [''p7'', ''p8'']\<rparr>"
proof -
  let ?d7 = "Dataset 7 1 0 0 ''keyboard'' ''detections'' [0, 5]"
  let ?d8 = "Dataset 8 (1 / 2) (1 / 4) (1 / 4) ''keyboard'' ''detections'' [1, 0]"
  have r7: "pos_neg_ratio ?d7 = [0, 5]" and r8: "pos_neg_ratio ?d8 = [1, 0]"
    by (simp_all add: Dataset_def)
  note a = load_dataset_zero_component
             [of ?d7 5 5 2 0 0 0 0 "first_samples [''p1'', ''p2'', ''p3'']"
                 "first_samples [''n1'', ''n2'', ''n3'', ''n4'', ''n5'', ''n6'']" 1]
  note b = load_dataset_zero_component
             [of ?d8 0 0 4 0 2 0 2
                 "first_samples [''p1'', ''p2'', ''p3'', ''p4'', ''p5'', ''p6'', ''p7'', ''p8'', ''p9'']"
                 "first_samples [''n1'', ''n2'', ''n3'']" 1]
  from a r7 zero_positive_plan
  have "load_dataset (first_samples [''p1'', ''p2'', ''p3''])
        (first_samples [''n1'', ''n2'', ''n3'', ''n4'', ''n5'', ''n6'']) ?d7
      = Inr \<lparr>train = [''n1'', ''n2'', ''n3'', ''n4'', ''n5''], validation = [], test = []\<rparr>"
    by (simp add: first_samples_def)
  moreover from b r8 few_positives_plan
  have "load_dataset (first_samples [''p1'', ''p2'', ''p3'', ''p4'', ''p5'', ''p6'', ''p7'', ''p8'', ''p9''])
        (first_samples [''n1'', ''n2'', ''n3'']) ?d8
      = Inr \<lparr>train = [''p1'', ''p2'', ''p3'', ''p4''], validation = [''p5'', ''p6''],
             test = [''p7'', ''p8'']\<rparr>"
    by (simp add: first_samples_def Let_def)
  ultimately show ?thesis
    using r7 r8 zero_positive_plan few_positives_plan by simp
qed

section \<open>The ratio prompt\<close>











section \<open>The license report\<close>

lemma license_name_inj: "license_name l = license_name l' \<Longrightarrow> l = l'"
  by (cases l; cases l'; simp)

lemma from_name_match: "from_name (Some (license_name l)) = l"
  by (cases l) (simp_all add: from_name_def License_members_def)

lemma set_License_members: "set License_members = UNIV"
proof -
  have "l \<in> set License_members" for l
    by (cases l) (simp_all add: License_members_def)
  then show ?thesis by auto
qed

lemma from_name_fallback:
  "(\<forall>l. Some (license_name l) \<noteq> name) \<Longrightarrow> from_name name = CC0"
proof -
  assume "\<forall>l. Some (license_name l) \<noteq> name"
  then have "find (\<lambda>license_enum. Some (license_name license_enum) = name) License_members = None"
    by (simp add: find_None_iff)
  then show ?thesis by (simp add: from_name_def)
qed

lemma fold_counter:
  "fold (\<lambda>s counter.
           let license_enum = from_name (license s)
           in counter(license_enum := counter license_enum + 1)) samples c l
     = c l + length (filter (\<lambda>s. from_name (license s) = l) samples)"
  by (induction samples arbitrary: c) (simp_all add: Let_def)

lemma license_counter_count:
  "license_counter samples l = length (filter (\<lambda>s. from_name (license s) = l) samples)"
  unfolding license_counter_def fold_counter by simp

lemma sum_member_counts:
  "(\<Sum>l\<leftarrow>License_members. length (filter (\<lambda>s. f s = l) samples)) = length samples"
proof (induction samples)
  case Nil
  then show ?case by (simp add: License_members_def)
next
  case (Cons s samples)
  have "(\<Sum>l\<leftarrow>License_members. length (filter (\<lambda>s. f s = l) (s # samples)))
          = (\<Sum>l\<leftarrow>License_members. (if f s = l then 1 else 0) + length (filter (\<lambda>s. f s = l) samples))"
    by (rule arg_cong [where f = sum_list]) (rule map_cong, simp_all)
  also have "\<dots> = (\<Sum>l\<leftarrow>License_members. (if f s = l then 1 else 0))
                  + (\<Sum>l\<leftarrow>License_members. length (filter (\<lambda>s. f s = l) samples))"
    by (simp add: sum_list_addf)
  also have "(\<Sum>l\<leftarrow>License_members. (if f s = l then 1 else 0 :: nat)) = 1"
    by (cases "f s") (simp_all add: License_members_def)
  finally show ?case using Cons.IH by simp
qed


lemma example_counter:
  "map (license_counter
          [\<lparr>sample_id = 1, license = Some ''Attribution License''\<rparr>,
           \<lparr>sample_id = 2, license = Some ''Attribution License''\<rparr>,
           \<lparr>sample_id = 3, license = Some ''unknown-string''\<rparr>]) License_members
     = [2, 0, 0, 0, 0, 0, 0, 1]"
  by code_simp

lemma example_report:
  "split_report ''train''
          [\<lparr>sample_id = 1, license = Some ''Attribution License''\<rparr>,
           \<lparr>sample_id = 2, license = Some ''Attribution License''\<rparr>,
           \<lparr>sample_id = 3, license = Some ''unknown-string''\<rparr>]
   = [CHR 0x0A] @ ''License information for train dataset:'' @ [CHR 0x0A]
     @ ''Total images: 3'' @ [CHR 0x0A]
     @ ''Total images with license:'' @ [CHR 0x0A]
     @ ''Attribution License: 2'' @ [CHR 0x0A]
     @ ''Attribution-ShareAlike License: 0'' @ [CHR 0x0A]
     @ ''Attribution-NoDerivs License: 0'' @ [CHR 0x0A]
     @ ''Attribution-NonCommercial License: 0'' @ [CHR 0x0A]
     @ ''Attribution-NonCommercial-ShareAlike License: 0'' @ [CHR 0x0A]
     @ ''Attribution-NonCommercial-NoDerivs License: 0'' @ [CHR 0x0A]
     @ ''No known copyright restrictions: 0'' @ [CHR 0x0A]
     @ ''United States Government Work: 1'' @ [CHR 0x0A]"
  by code_simp

text \<open>
  C8. \<open>from_name\<close> returns the member whose display name is exactly the given string,
  among the 8 members, and CC0, the last member, for every other string and for a
  missing license; it raises nothing. For each split \<open>license_info\<close> writes the number
  of samples and, for each member, the number of samples mapped to it; the counts of
  a split add up to its number of samples. Three samples tagged Attribution License,
  Attribution License and unknown-string count 2 for CC_BY, 1 for CC0, 0 for the
  others, and the total written is 3.
\<close>

theorem license_tally:
  "(license_name l = name \<longrightarrow> from_name (Some name) = l)
   \<and> ((\<forall>l'. license_name l' \<noteq> name) \<longrightarrow> from_name (Some name) = CC0)
   \<and> from_name None = CC0
   \<and> length License_members = 8 \<and> last License_members = CC0
   \<and> license_counter samples l = length (filter (\<lambda>s. from_name (license s) = l) samples)
   \<and> (\<Sum>l'\<leftarrow>License_members. license_counter samples l') = length samples
   \<and> license_info ds =
        split_report ''train'' (train ds) @ split_report ''validation'' (validation ds)
        @ split_report ''test'' (test ds)
   \<and> split_report split samples =
        [CHR 0x0A] @ ''License information for '' @ split @ '' dataset:'' @ [CHR 0x0A]
        @ ''Total images: '' @ str_nat (length samples) @ [CHR 0x0A]
        @ ''Total images with license:'' @ [CHR 0x0A]
        @ concat (map (\<lambda>l'. license_name l' @ '': ''
                          @ str_nat (length (filter (\<lambda>s. from_name (license s) = l') samples))
                          @ [CHR 0x0A])
                      License_members)
   \<and> map (license_counter
          [\<lparr>sample_id = 1, license = Some ''Attribution License''\<rparr>,
           \<lparr>sample_id = 2, license = Some ''Attribution License''\<rparr>,
           \<lparr>sample_id = 3, license = Some ''unknown-string''\<rparr>])
        [CC_BY, CC_BY_SA, CC_BY_ND, CC_BY_NC, CC_BY_NC_SA, CC_BY_NC_ND, OTHER, CC0]
      = [2, 0, 0, 0, 0, 0, 0, 1]
   \<and> split_report ''train''
          [\<lparr>sample_id = 1, license = Some ''Attribution License''\<rparr>,
           \<lparr>sample_id = 2, license = Some ''Attribution License''\<rparr>,
           \<lparr>sample_id = 3, license = Some ''unknown-string''\<rparr>]
      = [CHR 0x0A] @ ''License information for train dataset:'' @ [CHR 0x0A]
        @ ''Total images: 3'' @ [CHR 0x0A]
        @ ''Total images with license:'' @ [CHR 0x0A]
        @ ''Attribution License: 2'' @ [CHR 0x0A]
        @ ''Attribution-ShareAlike License: 0'' @ [CHR 0x0A]
        @ ''Attribution-NoDerivs License: 0'' @ [CHR 0x0A]
        @ ''Attribution-NonCommercial License: 0'' @ [CHR 0x0A]
        @ ''Attribution-NonCommercial-ShareAlike License: 0'' @ [CHR 0x0A]
        @ ''Attribution-NonCommercial-NoDerivs License: 0'' @ [CHR 0x0A]
        @ ''No known copyright restrictions: 0'' @ [CHR 0x0A]
        @ ''United States Government Work: 1'' @ [CHR 0x0A]"
proof -
  have 1: "license_name l = name \<longrightarrow> from_name (Some name) = l"
    using from_name_match by blast
  have 2: "(\<forall>l'. license_name l' \<noteq> name) \<longrightarrow> from_name (Some name) = CC0"
    using from_name_fallback [of "Some name"] by simp
  have 3: "from_name None = CC0"
    using from_name_fallback [of None] by simp
  have 4: "length License_members = 8 \<and> last License_members = CC0"
    by (simp add: License_members_def)
  have 5: "(\<Sum>l'\<leftarrow>License_members. license_counter samples l') = length samples"
    by (simp add: license_counter_count sum_member_counts)
  have 6: "split_report split samples =
        [CHR 0x0A] @ ''License information for '' @ split @ '' dataset:'' @ [CHR 0x0A]
        @ ''Total images: '' @ str_nat (length samples) @ [CHR 0x0A]
        @ ''Total images with license:'' @ [CHR 0x0A]
        @ concat (map (\<lambda>l'. license_name l' @ '': ''
                          @ str_nat (length (filter (\<lambda>s. from_name (license s) = l') samples))
                          @ [CHR 0x0A])
                      License_members)"
    by (simp add: split_report_def Let_def license_counter_count)
  have 7: "map (license_counter
          [\<lparr>sample_id = 1, license = Some ''Attribution License''\<rparr>,
           \<lparr>sample_id = 2, license = Some ''Attribution License''\<rparr>,
           \<lparr>sample_id = 3, license = Some ''unknown-string''\<rparr>])
        [CC_BY, CC_BY_SA, CC_BY_ND, CC_BY_NC, CC_BY_NC_SA, CC_BY_NC_ND, OTHER, CC0]
      = [2, 0, 0, 0, 0, 0, 0, 1]"
    using example_counter by (simp add: License_members_def)
  from 1 2 3 4 5 6 7 license_counter_count [of samples l] example_report show ?thesis
    unfolding license_info_def by blast
qed

text \<open>A display name that matches, and a string that matches none.\<close>

theorem license_tally_witness:
  "license_name CC_BY_NC = ''Attribution-NonCommercial License''
   \<and> from_name (Some ''Attribution-NonCommercial License'') = CC_BY_NC
   \<and> (\<forall>l'. license_name l' \<noteq> ''unknown-string'')
   \<and> from_name (Some ''unknown-string'') = CC0"
proof -
  have a: "license_name CC_BY_NC = ''Attribution-NonCommercial License''"
    by simp
  have b: "\<forall>l'. license_name l' \<noteq> ''unknown-string''"
  proof
    fix l' show "license_name l' \<noteq> ''unknown-string''" by (cases l') simp_all
  qed
  from license_tally [of CC_BY_NC "''Attribution-NonCommercial License''"] a
  have "from_name (Some ''Attribution-NonCommercial License'') = CC_BY_NC"
    by blast
  moreover from license_tally [of CC0 "''unknown-string''"] b
  have "from_name (Some ''unknown-string'') = CC0"
    by blast
  ultimately show ?thesis
    using a b by blast
qed

end
